theory Spec2Isabelle
  imports Complex_Main
begin

section \<open>Python errors and tensors\<close>

text \<open>
  Exceptions are values. An exception carries the values it reports (Python's
  \<open>args\<close>): a bare \<open>assert cond\<close> raises \<open>AssertionError()\<close> with no
  argument, \<open>assert cond, v\<close> would raise \<open>AssertionError(v)\<close>.
\<close>

datatype py_error =
    AssertionError "real list"
  | IndexError
  | RuntimeError
  | ValueError

text \<open>
  A tensor is its shape and its elements, read by a multi-index. Tensor elements are
  modelled as real numbers (exact arithmetic). Every operation builds its result with
  \<open>mk_tensor\<close>, which fixes the value outside the shape to 0, so that two tensors
  are equal exactly when their shapes and their elements inside the shape agree.
\<close>

record tensor =
  shape :: "nat list"
  elem :: "nat list \<Rightarrow> real"

definition valid_index :: "nat list \<Rightarrow> nat list \<Rightarrow> bool" where
  "valid_index s idx = list_all2 (\<lambda>i d. i < d) idx s"

definition mk_tensor :: "nat list \<Rightarrow> (nat list \<Rightarrow> real) \<Rightarrow> tensor" where
  "mk_tensor s f = \<lparr>shape = s, elem = (\<lambda>idx. if valid_index s idx then f idx else 0)\<rparr>"

text \<open>\<open>x.new_ones(shape)\<close>.\<close>

definition new_ones :: "nat list \<Rightarrow> tensor" where
  "new_ones s = mk_tensor s (\<lambda>idx. 1)"

text \<open>
  Broadcasting as torch does it: the shapes are aligned at their last axis; two sizes
  are compatible when they are equal or one of them is 1; the result takes the other
  size. \<open>bshape_rev\<close> works on the reversed shapes.
\<close>

fun bshape_rev :: "nat list \<Rightarrow> nat list \<Rightarrow> nat list option" where
  "bshape_rev [] ys = Some ys"
| "bshape_rev (x # xs) [] = Some (x # xs)"
| "bshape_rev (x # xs) (y # ys) =
     (if x = y \<or> y = 1 then map_option ((#) x) (bshape_rev xs ys)
      else if x = 1 then map_option ((#) y) (bshape_rev xs ys)
      else None)"

definition broadcast_shapes :: "nat list \<Rightarrow> nat list \<Rightarrow> nat list option" where
  "broadcast_shapes a b = map_option rev (bshape_rev (rev a) (rev b))"

text \<open>
  The index at which a tensor of shape \<open>s\<close> is read for the index \<open>idx\<close> of the
  broadcast result: shape and index are paired from the last axis on, so the leading
  axes the tensor does not have are dropped, and an axis of size 1 is read at 0.
\<close>

definition bidx :: "nat list \<Rightarrow> nat list \<Rightarrow> nat list" where
  "bidx s idx = rev (map2 (\<lambda>d i. if d = 1 then 0 else i) (rev s) (rev idx))"

definition tensor_binop ::
  "(real \<Rightarrow> real \<Rightarrow> real) \<Rightarrow> tensor \<Rightarrow> tensor \<Rightarrow> py_error + tensor" where
  "tensor_binop f a b =
     (case broadcast_shapes (shape a) (shape b) of
        None \<Rightarrow> Inl RuntimeError
      | Some s \<Rightarrow>
          Inr (mk_tensor s (\<lambda>idx. f (elem a (bidx (shape a) idx)) (elem b (bidx (shape b) idx)))))"

definition tensor_mul :: "tensor \<Rightarrow> tensor \<Rightarrow> py_error + tensor" where
  "tensor_mul a b = tensor_binop (\<lambda>u v. u * v) a b"

definition tensor_add :: "tensor \<Rightarrow> tensor \<Rightarrow> py_error + tensor" where
  "tensor_add a b = tensor_binop (\<lambda>u v. u + v) a b"

text \<open>
  Indexing a Python list, for \<open>xs[i] = v\<close> and \<open>xs[i]\<close>: an index below zero is
  taken from the end of the list, and IndexError is raised outside \<open>-len(xs) .. len(xs) - 1\<close>.
\<close>

definition py_index :: "'a list \<Rightarrow> int \<Rightarrow> py_error + nat" where
  "py_index xs i =
     (if 0 \<le> i \<and> i < int (length xs) then Inr (nat i)
      else if i < 0 \<and> - int (length xs) \<le> i then Inr (nat (int (length xs) + i))
      else Inl IndexError)"

definition py_setitem :: "'a list \<Rightarrow> int \<Rightarrow> 'a \<Rightarrow> py_error + 'a list" where
  "py_setitem xs i v = (case py_index xs i of Inl e \<Rightarrow> Inl e | Inr j \<Rightarrow> Inr (xs[j := v]))"

definition py_getitem :: "'a list \<Rightarrow> int \<Rightarrow> py_error + 'a" where
  "py_getitem xs i = (case py_index xs i of Inl e \<Rightarrow> Inl e | Inr j \<Rightarrow> Inr (xs ! j))"

section \<open>The collaborators that are not part of the model\<close>

text \<open>
  \<open>openfold.dynamic_axial_parallelism\<close> (dap) and \<open>openfold.model.inductor\<close> are
  consumed as opaque services: their functions are parameters of the model.
\<close>

record dap_env =
  dap_is_enabled :: bool
  dap_size :: nat
  dap_scatter :: "tensor \<Rightarrow> int \<Rightarrow> tensor"
  dap_gather :: "tensor \<Rightarrow> int \<Rightarrow> tensor"
  dap_row_to_col :: "tensor \<Rightarrow> tensor"

record inductor_env =
  is_enabled :: bool
  is_enabled_on_hopper :: bool
  is_enabled_on_ampere :: bool

section \<open>dropout.py\<close>

text \<open>
  The module object: \<open>self.p\<close>, \<open>self.share_dim\<close>, \<open>self.inplace\<close>, and the
  \<open>training\<close> flag every \<open>nn.Module\<close> has (True after construction, False after
  \<open>eval()\<close>).
\<close>

record Dropout =
  self_p :: real
  self_share_dim :: "int list"
  self_inplace :: bool
  self_training :: bool

text \<open>The \<open>share_dim\<close> argument of the constructor: an int, a tuple of ints, or any other object.\<close>

datatype share_dim_arg = SInt int | STuple "int list" | SOther

text \<open>
  \<open>Dropout.__init__\<close>: \<open>assert 0.0 <= p <= 1.0\<close>, then an int becomes a
  one-element tuple and anything else is asserted to be a tuple. Both assertions are
  bare: the AssertionError has no argument.
\<close>

definition Dropout_init :: "real \<Rightarrow> share_dim_arg \<Rightarrow> bool \<Rightarrow> py_error + Dropout" where
  "Dropout_init p share_dim inplace =
     (if \<not> (0 \<le> p \<and> p \<le> 1) then Inl (AssertionError [])
      else case share_dim of
             SInt d \<Rightarrow>
               Inr \<lparr>self_p = p, self_share_dim = [d], self_inplace = inplace, self_training = True\<rparr>
           | STuple ds \<Rightarrow>
               Inr \<lparr>self_p = p, self_share_dim = ds, self_inplace = inplace, self_training = True\<rparr>
           | SOther \<Rightarrow> Inl (AssertionError []))"

text \<open>\<open>DropoutRowwise.__init__\<close> and \<open>DropoutColumnwise.__init__\<close>.\<close>

definition DropoutRowwise_init :: "real \<Rightarrow> py_error + Dropout" where
  "DropoutRowwise_init p = Dropout_init p (SInt (- 3)) False"

definition DropoutColumnwise_init :: "real \<Rightarrow> py_error + Dropout" where
  "DropoutColumnwise_init p = Dropout_init p (SInt (- 2)) False"

text \<open>\<open>nn.Module.eval()\<close> and \<open>nn.Module.train()\<close>.\<close>

definition eval_mode :: "Dropout \<Rightarrow> Dropout" where
  "eval_mode d = d\<lparr>self_training := False\<rparr>"

definition train_mode :: "Dropout \<Rightarrow> Dropout" where
  "train_mode d = d\<lparr>self_training := True\<rparr>"

text \<open>The loop \<open>for d in self.share_dim: shape[d] = 1\<close>.\<close>

fun share_shape :: "nat list \<Rightarrow> int list \<Rightarrow> py_error + nat list" where
  "share_shape sh [] = Inr sh"
| "share_shape sh (d # ds) =
     (case py_setitem sh d 1 of Inl e \<Rightarrow> Inl e | Inr sh' \<Rightarrow> share_shape sh' ds)"

text \<open>\<open>if dap_scattered_dim is not None: shape[dap_scattered_dim] *= dap.size()\<close>.\<close>

definition widen_shape :: "dap_env \<Rightarrow> nat list \<Rightarrow> int option \<Rightarrow> py_error + nat list" where
  "widen_shape dap sh dap_scattered_dim =
     (case dap_scattered_dim of
        None \<Rightarrow> Inr sh
      | Some k \<Rightarrow>
          (case py_getitem sh k of
             Inl e \<Rightarrow> Inl e
           | Inr n \<Rightarrow> py_setitem sh k (n * dap_size dap)))"

text \<open>
  \<open>torch.nn.functional.dropout(input, p, training, inplace)\<close>, by its documentation:
  a probability outside [0, 1] raises ValueError; outside training the input is
  returned as it is; in training every element is zeroed with probability \<open>p\<close>,
  independently, and the kept ones are scaled by \<open>1 / (1 - p)\<close>; with \<open>p = 1\<close>
  everything is zeroed. The randomness source is the field \<open>u\<close> of uniform samples,
  one per element: an element is kept when its sample is below \<open>1 - p\<close>. The
  \<open>inplace\<close> flag does not change the values (see the store model below).
\<close>

definition F_dropout :: "tensor \<Rightarrow> real \<Rightarrow> bool \<Rightarrow> (nat list \<Rightarrow> real) \<Rightarrow> py_error + tensor" where
  "F_dropout input p training u =
     (if p < 0 \<or> p > 1 then Inl ValueError
      else if \<not> training then Inr input
      else if p = 1 then Inr (mk_tensor (shape input) (\<lambda>idx. 0))
      else Inr (mk_tensor (shape input)
                  (\<lambda>idx. if u idx < 1 - p then elem input idx / (1 - p) else 0)))"

text \<open>
  \<open>_mul_add_eager\<close>: \<open>y + x * mask\<close>. \<open>_mul_add_jit\<close> is
  \<open>torch.compile(_mul_add_eager)\<close>, which computes the same function.
\<close>

definition mul_add_eager :: "tensor \<Rightarrow> tensor \<Rightarrow> tensor \<Rightarrow> py_error + tensor" where
  "mul_add_eager x msk y =
     (case tensor_mul x msk of Inl e \<Rightarrow> Inl e | Inr xm \<Rightarrow> tensor_add y xm)"

definition mul_add_jit :: "tensor \<Rightarrow> tensor \<Rightarrow> tensor \<Rightarrow> py_error + tensor" where
  "mul_add_jit = mul_add_eager"

definition mul_add :: "inductor_env \<Rightarrow> dap_env \<Rightarrow> tensor \<Rightarrow> tensor \<Rightarrow> tensor \<Rightarrow> py_error + tensor" where
  "mul_add ind dap x msk y =
     (let mul_add_fn =
            (if is_enabled_on_hopper ind then mul_add_jit
             else if is_enabled_on_ampere ind \<and> dap_size dap \<le> 1 then mul_add_jit
             else mul_add_eager)
      in mul_add_fn x msk y)"

text \<open>
  The mask of \<open>Dropout.forward\<close> (the lines from \<open>shape = list(x.shape)\<close> to the
  scatter of the mask).
\<close>

definition Dropout_mask ::
  "dap_env \<Rightarrow> Dropout \<Rightarrow> (nat list \<Rightarrow> real) \<Rightarrow> tensor \<Rightarrow> int option \<Rightarrow> py_error + tensor" where
  "Dropout_mask dap self u x dap_scattered_dim =
     (case share_shape (shape x) (self_share_dim self) of
        Inl e \<Rightarrow> Inl e
      | Inr sh \<Rightarrow>
          (case widen_shape dap sh dap_scattered_dim of
             Inl e \<Rightarrow> Inl e
           | Inr sh' \<Rightarrow>
               (case F_dropout (new_ones sh') (self_p self) (self_training self) u of
                  Inl e \<Rightarrow> Inl e
                | Inr msk \<Rightarrow>
                    (case dap_scattered_dim of
                       None \<Rightarrow> Inr msk
                     | Some k \<Rightarrow> Inr (dap_scatter dap msk k)))))"

text \<open>\<open>Dropout.forward(x, add_output_to, dap_scattered_dim)\<close>.\<close>

definition Dropout_forward ::
  "inductor_env \<Rightarrow> dap_env \<Rightarrow> Dropout \<Rightarrow> (nat list \<Rightarrow> real) \<Rightarrow>
   tensor \<Rightarrow> tensor \<Rightarrow> int option \<Rightarrow> py_error + tensor" where
  "Dropout_forward ind dap self u x add_output_to dap_scattered_dim =
     (case Dropout_mask dap self u x dap_scattered_dim of
        Inl e \<Rightarrow> Inl e
      | Inr msk \<Rightarrow> mul_add ind dap x msk add_output_to)"

text \<open>
  An axis \<open>d\<close> is valid for a tensor of rank \<open>n\<close> when Python accepts it as an
  index of the shape list.
\<close>

definition valid_axis :: "nat \<Rightarrow> int \<Rightarrow> bool" where
  "valid_axis n d = (- int n \<le> d \<and> d < int n)"

text \<open>\<open>collapsed m s\<close>: the shape \<open>m\<close> is \<open>s\<close> with some axes set to 1.\<close>

definition collapsed :: "nat list \<Rightarrow> nat list \<Rightarrow> bool" where
  "collapsed m s = list_all2 (\<lambda>a b. a = b \<or> a = 1) m s"

text \<open>
  Environments of a run on one process with kernel fusion off: no parallel group, and
  scatter, gather and relayout return their argument.
\<close>

definition single_process :: dap_env where
  "single_process =
     \<lparr>dap_is_enabled = False, dap_size = 1, dap_scatter = (\<lambda>t k. t),
      dap_gather = (\<lambda>t k. t), dap_row_to_col = (\<lambda>t. t)\<rparr>"

definition no_fusion :: inductor_env where
  "no_fusion = \<lparr>is_enabled = False, is_enabled_on_hopper = False, is_enabled_on_ampere = False\<rparr>"

section \<open>dropout.py on a store of tensor objects\<close>

text \<open>
  To say which tensor objects a call mutates, tensors live in a store: an object is an
  address (an index of the store), a new tensor is appended, and an in-place operation
  overwrites the cell of its operand. The functions below are the functions of
  \<open>dropout.py\<close> once more, on addresses; they return the store they leave, also when
  they raise.
\<close>

type_synonym store = "tensor list"

definition alloc :: "store \<Rightarrow> tensor \<Rightarrow> store \<times> nat" where
  "alloc h t = (h @ [t], length h)"

text \<open>
  \<open>F.dropout\<close> on an object: outside training the input object itself is returned;
  in training the result overwrites the input when \<open>inplace\<close> is set and is a new
  tensor otherwise.
\<close>

definition F_dropout_store ::
  "store \<Rightarrow> nat \<Rightarrow> real \<Rightarrow> bool \<Rightarrow> bool \<Rightarrow> (nat list \<Rightarrow> real) \<Rightarrow> store \<times> (py_error + nat)" where
  "F_dropout_store h a p training inplace u =
     (case F_dropout (h ! a) p training u of
        Inl e \<Rightarrow> (h, Inl e)
      | Inr t \<Rightarrow>
          if \<not> training then (h, Inr a)
          else if inplace then (h[a := t], Inr a)
          else (case alloc h t of (h', a') \<Rightarrow> (h', Inr a')))"

text \<open>\<open>y + x * mask\<close>: the product and the sum are new tensors.\<close>

definition mul_add_store :: "store \<Rightarrow> nat \<Rightarrow> nat \<Rightarrow> nat \<Rightarrow> store \<times> (py_error + nat)" where
  "mul_add_store h x msk y =
     (case tensor_mul (h ! x) (h ! msk) of
        Inl e \<Rightarrow> (h, Inl e)
      | Inr xm \<Rightarrow>
          (case alloc h xm of
             (h1, a1) \<Rightarrow>
               (case tensor_add (h1 ! y) (h1 ! a1) of
                  Inl e \<Rightarrow> (h1, Inl e)
                | Inr r \<Rightarrow> (case alloc h1 r of (h2, a2) \<Rightarrow> (h2, Inr a2)))))"

text \<open>
  \<open>Dropout.forward\<close> on the objects \<open>x\<close> and \<open>add_output_to\<close>: the mask is a new
  tensor (\<open>x.new_ones(shape)\<close>), \<open>F.dropout\<close> works on the mask, the scatter returns
  a new tensor, and \<open>_mul_add\<close> (compiled or not) builds the result.
\<close>

definition Dropout_forward_store ::
  "dap_env \<Rightarrow> Dropout \<Rightarrow> (nat list \<Rightarrow> real) \<Rightarrow> store \<Rightarrow> nat \<Rightarrow> nat \<Rightarrow> int option \<Rightarrow>
   store \<times> (py_error + nat)" where
  "Dropout_forward_store dap self u h x add_output_to dap_scattered_dim =
     (case share_shape (shape (h ! x)) (self_share_dim self) of
        Inl e \<Rightarrow> (h, Inl e)
      | Inr sh \<Rightarrow>
          (case widen_shape dap sh dap_scattered_dim of
             Inl e \<Rightarrow> (h, Inl e)
           | Inr sh' \<Rightarrow>
               (case alloc h (new_ones sh') of
                  (h1, m1) \<Rightarrow>
                    (case F_dropout_store h1 m1 (self_p self) (self_training self) (self_inplace self) u of
                       (h2, Inl e) \<Rightarrow> (h2, Inl e)
                     | (h2, Inr m2) \<Rightarrow>
                         (case dap_scattered_dim of
                            None \<Rightarrow> mul_add_store h2 x m2 add_output_to
                          | Some k \<Rightarrow>
                              (case alloc h2 (dap_scatter dap (h2 ! m2) k) of
                                 (h3, m3) \<Rightarrow> mul_add_store h3 x m3 add_output_to))))))"

text \<open>\<open>keeps h h'\<close>: every object of the store \<open>h\<close> is in \<open>h'\<close>, at its address, with its value.\<close>

definition keeps :: "store \<Rightarrow> store \<Rightarrow> bool" where
  "keeps h h' = (length h \<le> length h' \<and> take (length h) h' = h)"

text \<open>The value a call on the store returns: the tensor at the returned address, or the error.\<close>

definition value_of :: "store \<Rightarrow> py_error + nat \<Rightarrow> py_error + tensor" where
  "value_of h r = (case r of Inl e \<Rightarrow> Inl e | Inr a \<Rightarrow> Inr (h ! a))"

section \<open>evoformer_block.py\<close>

text \<open>
  The attention modules and the block core are collaborators whose code is elsewhere:
  they are fields of the block, as the module objects are in the source. \<open>rng_draw\<close>
  is the field of uniform samples the random generator hands to the block's dropout
  in this forward pass.
\<close>

record EvoformerBlock =
  msa_att_row :: "tensor \<Rightarrow> tensor \<Rightarrow> tensor \<Rightarrow> tensor"
  msa_att_col :: "tensor \<Rightarrow> tensor \<Rightarrow> tensor"
  msa_dropout_rowwise :: Dropout
  core :: "tensor \<Rightarrow> tensor \<Rightarrow> tensor \<Rightarrow> tensor \<Rightarrow> tensor \<times> tensor"
  rng_draw :: "nat list \<Rightarrow> real"

text \<open>
  The calls a forward pass makes to its collaborators, with their arguments, in the
  order in which they are made.
\<close>

datatype call =
    RowAttention tensor tensor tensor
  | DropoutRowwise tensor tensor
  | RowToCol tensor
  | ColumnAttention tensor tensor
  | Core tensor tensor tensor tensor

text \<open>
  \<open>EvoformerBlock.__init__\<close>: the attention modules and the core are built by
  constructors that are not part of the model and are passed in as they are built; the
  dropout is \<open>DropoutRowwise(p=msa_dropout)\<close>.
\<close>

definition EvoformerBlock_init ::
  "(tensor \<Rightarrow> tensor \<Rightarrow> tensor \<Rightarrow> tensor) \<Rightarrow> (tensor \<Rightarrow> tensor \<Rightarrow> tensor) \<Rightarrow>
   (tensor \<Rightarrow> tensor \<Rightarrow> tensor \<Rightarrow> tensor \<Rightarrow> tensor \<times> tensor) \<Rightarrow> real \<Rightarrow> (nat list \<Rightarrow> real) \<Rightarrow>
   py_error + EvoformerBlock" where
  "EvoformerBlock_init row_attention column_attention block_core msa_dropout draw =
     (case DropoutRowwise_init msa_dropout of
        Inl e \<Rightarrow> Inl e
      | Inr d \<Rightarrow>
          Inr \<lparr>msa_att_row = row_attention, msa_att_col = column_attention,
               msa_dropout_rowwise = d, core = block_core, rng_draw = draw\<rparr>)"

text \<open>\<open>nn.Module.train(mode)\<close> on a block: the flag is set on its dropout.\<close>

definition set_training :: "bool \<Rightarrow> EvoformerBlock \<Rightarrow> EvoformerBlock" where
  "set_training mode block =
     block\<lparr>msa_dropout_rowwise := (msa_dropout_rowwise block)\<lparr>self_training := mode\<rparr>\<rparr>"

text \<open>
  \<open>EvoformerBlock.forward(m, z, msa_mask, pair_mask)\<close>. The result is the pair
  \<open>(m, z)\<close> together with the calls made.
\<close>

definition EvoformerBlock_forward ::
  "inductor_env \<Rightarrow> dap_env \<Rightarrow> EvoformerBlock \<Rightarrow> tensor \<Rightarrow> tensor \<Rightarrow> tensor \<Rightarrow> tensor \<Rightarrow>
   py_error + ((tensor \<times> tensor) \<times> call list)" where
  "EvoformerBlock_forward ind dap self m z msa_mask pair_mask =
     (if dap_is_enabled dap then
        (let msa_mask_row = dap_scatter dap msa_mask 1;
             msa_mask_col = dap_scatter dap msa_mask 2;
             att = msa_att_row self m z msa_mask_row
         in case Dropout_forward ind dap (msa_dropout_rowwise self) (rng_draw self) att m None of
              Inl e \<Rightarrow> Inl e
            | Inr m1 \<Rightarrow>
                (let m2 = dap_row_to_col dap m1;
                     m3 = msa_att_col self m2 msa_mask_col
                 in Inr (core self m3 z msa_mask pair_mask,
                         [RowAttention m z msa_mask_row, DropoutRowwise att m, RowToCol m1,
                          ColumnAttention m2 msa_mask_col, Core m3 z msa_mask pair_mask])))
      else
        (let att = msa_att_row self m z msa_mask
         in case Dropout_forward ind dap (msa_dropout_rowwise self) (rng_draw self) att m None of
              Inl e \<Rightarrow> Inl e
            | Inr m1 \<Rightarrow>
                (let m3 = msa_att_col self m1 msa_mask
                 in Inr (core self m3 z msa_mask pair_mask,
                         [RowAttention m z msa_mask, DropoutRowwise att m,
                          ColumnAttention m1 msa_mask, Core m3 z msa_mask pair_mask]))))"

section \<open>evoformer_stack.py\<close>

record EvoformerStack =
  blocks :: "EvoformerBlock list"
  linear :: "tensor \<Rightarrow> tensor"

text \<open>A call \<open>block(m=m, z=z, msa_mask=msa_mask, pair_mask=pair_mask)\<close> of a block of the stack: its result without the record of calls.\<close>

definition block_call ::
  "inductor_env \<Rightarrow> dap_env \<Rightarrow> EvoformerBlock \<Rightarrow> tensor \<Rightarrow> tensor \<Rightarrow> tensor \<Rightarrow> tensor \<Rightarrow>
   py_error + (tensor \<times> tensor)" where
  "block_call ind dap block m z msa_mask pair_mask =
     (case EvoformerBlock_forward ind dap block m z msa_mask pair_mask of
        Inl e \<Rightarrow> Inl e
      | Inr (mz, calls) \<Rightarrow> Inr mz)"

text \<open>
  \<open>torch.utils.checkpoint.checkpoint(function, *args, use_reentrant=True)\<close>, by its
  documentation: the forward pass runs \<open>function(*args)\<close> and returns its result;
  the intermediate activations are not kept and are computed again in the backward
  pass.
\<close>

definition gradient_checkpointing_fn :: "(tensor \<Rightarrow> tensor \<Rightarrow> 'r) \<Rightarrow> tensor \<Rightarrow> tensor \<Rightarrow> 'r" where
  "gradient_checkpointing_fn function m z = function m z"

text \<open>The loop \<open>for block in self.blocks: m, z = block(m=m, z=z, msa_mask=msa_mask, pair_mask=pair_mask)\<close>.\<close>

fun run_blocks ::
  "inductor_env \<Rightarrow> dap_env \<Rightarrow> EvoformerBlock list \<Rightarrow> tensor \<Rightarrow> tensor \<Rightarrow> tensor \<Rightarrow> tensor \<Rightarrow>
   py_error + (tensor \<times> tensor)" where
  "run_blocks ind dap [] m z msa_mask pair_mask = Inr (m, z)"
| "run_blocks ind dap (block # bs) m z msa_mask pair_mask =
     (case block_call ind dap block m z msa_mask pair_mask of
        Inl e \<Rightarrow> Inl e
      | Inr (m', z') \<Rightarrow> run_blocks ind dap bs m' z' msa_mask pair_mask)"

text \<open>The loop \<open>for block in blocks: m, z = gradient_checkpointing_fn(block, m, z, use_reentrant=True)\<close> over the partial applications.\<close>

fun run_blocks_checkpointed ::
  "(tensor \<Rightarrow> tensor \<Rightarrow> py_error + (tensor \<times> tensor)) list \<Rightarrow> tensor \<Rightarrow> tensor \<Rightarrow>
   py_error + (tensor \<times> tensor)" where
  "run_blocks_checkpointed [] m z = Inr (m, z)"
| "run_blocks_checkpointed (block # bs) m z =
     (case gradient_checkpointing_fn block m z of
        Inl e \<Rightarrow> Inl e
      | Inr (m', z') \<Rightarrow> run_blocks_checkpointed bs m' z')"

text \<open>\<open>EvoformerStack._forward_blocks\<close>.\<close>

definition forward_blocks ::
  "inductor_env \<Rightarrow> dap_env \<Rightarrow> EvoformerStack \<Rightarrow> tensor \<Rightarrow> tensor \<Rightarrow> tensor \<Rightarrow> tensor \<Rightarrow>
   py_error + (tensor \<times> tensor)" where
  "forward_blocks ind dap self m z msa_mask pair_mask =
     (let m0 = (if dap_is_enabled dap then dap_scatter dap m 1 else m);
          z0 = (if dap_is_enabled dap then dap_scatter dap z 1 else z)
      in case run_blocks ind dap (blocks self) m0 z0 msa_mask pair_mask of
           Inl e \<Rightarrow> Inl e
         | Inr (m1, z1) \<Rightarrow>
             Inr (if dap_is_enabled dap then dap_gather dap m1 1 else m1,
                  if dap_is_enabled dap then dap_gather dap z1 1 else z1))"

text \<open>
  \<open>EvoformerStack._forward_blocks_with_gradient_checkpointing\<close>: the list of
  \<open>partial(block, msa_mask=msa_mask, pair_mask=pair_mask)\<close> is built first.
\<close>

definition forward_blocks_with_gradient_checkpointing ::
  "inductor_env \<Rightarrow> dap_env \<Rightarrow> EvoformerStack \<Rightarrow> tensor \<Rightarrow> tensor \<Rightarrow> tensor \<Rightarrow> tensor \<Rightarrow>
   py_error + (tensor \<times> tensor)" where
  "forward_blocks_with_gradient_checkpointing ind dap self m z msa_mask pair_mask =
     (let partials = map (\<lambda>block. (\<lambda>m z. block_call ind dap block m z msa_mask pair_mask)) (blocks self);
          m0 = (if dap_is_enabled dap then dap_scatter dap m 1 else m);
          z0 = (if dap_is_enabled dap then dap_scatter dap z 1 else z)
      in case run_blocks_checkpointed partials m0 z0 of
           Inl e \<Rightarrow> Inl e
         | Inr (m1, z1) \<Rightarrow>
             Inr (if dap_is_enabled dap then dap_gather dap m1 1 else m1,
                  if dap_is_enabled dap then dap_gather dap z1 1 else z1))"

text \<open>
  \<open>m[:, 0, :, :]\<close>: the tensor needs four axes at least and a second axis that is not
  empty, else torch raises IndexError.
\<close>

definition select_first_row :: "tensor \<Rightarrow> py_error + tensor" where
  "select_first_row m =
     (case shape m of
        b # s # rest \<Rightarrow>
          if 2 \<le> length rest \<and> 0 < s
          then Inr (mk_tensor (b # rest) (\<lambda>idx. case idx of [] \<Rightarrow> 0 | i # js \<Rightarrow> elem m (i # 0 # js)))
          else Inl IndexError
      | _ \<Rightarrow> Inl IndexError)"

text \<open>
  \<open>EvoformerStack.forward\<close>. \<open>grad_enabled\<close> is what \<open>torch.is_grad_enabled()\<close>
  returns when the call is made; the assertion is bare.
\<close>

definition EvoformerStack_forward ::
  "inductor_env \<Rightarrow> dap_env \<Rightarrow> bool \<Rightarrow> EvoformerStack \<Rightarrow> tensor \<Rightarrow> tensor \<Rightarrow> tensor \<Rightarrow> tensor \<Rightarrow> bool \<Rightarrow>
   py_error + (tensor \<times> tensor \<times> tensor)" where
  "EvoformerStack_forward ind dap grad_enabled self m z msa_mask pair_mask gradient_checkpointing =
     (case (if gradient_checkpointing
            then (if \<not> grad_enabled then Inl (AssertionError [])
                  else forward_blocks_with_gradient_checkpointing ind dap self m z msa_mask pair_mask)
            else forward_blocks ind dap self m z msa_mask pair_mask) of
        Inl e \<Rightarrow> Inl e
      | Inr (m1, z1) \<Rightarrow>
          (case select_first_row m1 of
             Inl e \<Rightarrow> Inl e
           | Inr row \<Rightarrow> Inr (m1, z1, linear self row)))"

text \<open>
  A small block and stack for concrete runs: attention and core return their first
  argument, the dropout is row-wise with \<open>p = 1/4\<close>, in inference mode.
\<close>

definition example_block :: EvoformerBlock where
  "example_block =
     \<lparr>msa_att_row = (\<lambda>m z k. m), msa_att_col = (\<lambda>m k. m),
      msa_dropout_rowwise =
        \<lparr>self_p = 1 / 4, self_share_dim = [- 3], self_inplace = False, self_training = False\<rparr>,
      core = (\<lambda>m z k1 k2. (m, z)), rng_draw = (\<lambda>idx. 0)\<rparr>"

definition example_stack :: EvoformerStack where
  "example_stack = \<lparr>blocks = [example_block], linear = (\<lambda>t. t)\<rparr>"

section \<open>Properties of the tensor operations and of dropout\<close>

lemma mk_tensor_cong:
  "(\<And>idx. valid_index s idx \<Longrightarrow> f idx = g idx) \<Longrightarrow> mk_tensor s f = mk_tensor s g"
  by (auto simp: mk_tensor_def)

lemma shape_mk_tensor [simp]: "shape (mk_tensor s f) = s"
  by (simp add: mk_tensor_def)

lemma elem_mk_tensor: "elem (mk_tensor s f) idx = (if valid_index s idx then f idx else 0)"
  by (simp add: mk_tensor_def)

lemma collapsed_refl: "collapsed s s"
  by (simp add: collapsed_def list_all2_refl)

lemma py_setitem_collapsed:
  "py_setitem sh d 1 = Inr sh' \<Longrightarrow> collapsed sh s \<Longrightarrow> collapsed sh' s"
  by (auto simp: py_setitem_def py_index_def Let_def collapsed_def list_all2_conv_all_nth nth_list_update split: if_splits)

lemma share_shape_collapsed:
  "share_shape sh ds = Inr sh' \<Longrightarrow> collapsed sh s \<Longrightarrow> collapsed sh' s"
proof (induction ds arbitrary: sh)
  case Nil then show ?case by simp
next
  case (Cons d ds)
  from Cons.prems(1) obtain sh1 where s1: "py_setitem sh d 1 = Inr sh1"
    and s2: "share_shape sh1 ds = Inr sh'"
    by (cases "py_setitem sh d 1") simp_all
  from py_setitem_collapsed [OF s1 Cons.prems(2)] have "collapsed sh1 s" .
  with Cons.IH s2 show ?case by blast
qed

lemma bshape_rev_collapsed:
  "list_all2 (\<lambda>a b. a = b \<or> a = 1) m s \<Longrightarrow> bshape_rev s m = Some s"
  by (induction m s rule: list_all2_induct) auto

lemma broadcast_shapes_collapsed: "collapsed m s \<Longrightarrow> broadcast_shapes s m = Some s"
  by (simp add: broadcast_shapes_def collapsed_def bshape_rev_collapsed)

lemma bshape_rev_valid_right:
  "bshape_rev a b = Some s \<Longrightarrow> list_all2 (\<lambda>i d. i < d) i s \<Longrightarrow>
   list_all2 (\<lambda>i d. i < d) (map2 (\<lambda>d i. if d = 1 then 0 else i) b i) b"
proof (induction a b arbitrary: s i rule: bshape_rev.induct)
  case (1 ys)
  then show ?case by (auto simp: list_all2_conv_all_nth)
next
  case (2 x xs)
  then show ?case by simp
next
  case (3 x xs y ys)
  then show ?case
    by (cases i) (auto split: if_splits)
qed

lemma bshape_rev_valid_left:
  "bshape_rev a b = Some s \<Longrightarrow> list_all2 (\<lambda>i d. i < d) i s \<Longrightarrow>
   list_all2 (\<lambda>i d. i < d) (map2 (\<lambda>d i. if d = 1 then 0 else i) a i) a"
proof (induction a b arbitrary: s i rule: bshape_rev.induct)
  case (1 ys)
  then show ?case by simp
next
  case (2 x xs)
  then show ?case by (auto simp: list_all2_conv_all_nth)
next
  case (3 x xs y ys)
  then show ?case
    by (cases i) (auto split: if_splits)
qed

lemma valid_index_rev: "valid_index s idx = list_all2 (\<lambda>i d. i < d) (rev idx) (rev s)"
  by (simp add: valid_index_def)

lemma broadcast_valid_right:
  assumes "broadcast_shapes a b = Some s" and "valid_index s idx"
  shows "valid_index b (bidx b idx)"
proof -
  from assms(1) obtain z where z: "bshape_rev (rev a) (rev b) = Some z" and s: "s = rev z"
    by (auto simp: broadcast_shapes_def)
  from assms(2) s have "list_all2 (\<lambda>i d. i < d) (rev idx) z"
    by (simp add: valid_index_def list_all2_rev1)
  from bshape_rev_valid_right [OF z this] show ?thesis
    by (simp add: valid_index_def bidx_def list_all2_rev1)
qed

lemma broadcast_valid_left:
  assumes "broadcast_shapes a b = Some s" and "valid_index s idx"
  shows "valid_index a (bidx a idx)"
proof -
  from assms(1) obtain z where z: "bshape_rev (rev a) (rev b) = Some z" and s: "s = rev z"
    by (auto simp: broadcast_shapes_def)
  from assms(2) s have "list_all2 (\<lambda>i d. i < d) (rev idx) z"
    by (simp add: valid_index_def list_all2_rev1)
  from bshape_rev_valid_left [OF z this] show ?thesis
    by (simp add: valid_index_def bidx_def list_all2_rev1)
qed

lemma bidx_idem: "bidx s (bidx s idx) = bidx s idx"
proof -
  have "map2 (\<lambda>d i. if d = 1 then 0 else i) a (map2 (\<lambda>d i. if d = 1 then 0 else i) a i)
      = map2 (\<lambda>d i. if d = (1::nat) then 0 else i) a (i::nat list)" for a i
    by (induction a i rule: list_induct2') auto
  then show ?thesis by (simp add: bidx_def)
qed

lemma py_index_valid: "valid_axis (length xs) d \<Longrightarrow> \<exists>j. py_index xs d = Inr j \<and> j < length xs"
  by (auto simp: py_index_def valid_axis_def Let_def)

lemma py_index_invalid: "\<not> valid_axis (length xs) d \<Longrightarrow> py_index xs d = Inl IndexError"
  by (auto simp: py_index_def valid_axis_def Let_def)

lemma py_setitem_length: "py_setitem xs d v = Inr ys \<Longrightarrow> length ys = length xs"
  by (auto simp: py_setitem_def split: sum.splits)

lemma share_shape_valid:
  "list_all (valid_axis (length sh)) ds \<Longrightarrow> \<exists>sh'. share_shape sh ds = Inr sh' \<and> length sh' = length sh"
proof (induction ds arbitrary: sh)
  case Nil
  then show ?case by simp
next
  case (Cons d ds)
  from Cons.prems have "valid_axis (length sh) d" by simp
  then obtain j where j: "py_index sh d = Inr j" using py_index_valid by blast
  have "list_all (valid_axis (length (sh[j := 1]))) ds" using Cons.prems by simp
  from Cons.IH [OF this] show ?case by (simp add: py_setitem_def j)
qed

lemma share_shape_invalid:
  "\<not> list_all (valid_axis (length sh)) ds \<Longrightarrow> share_shape sh ds = Inl IndexError"
proof (induction ds arbitrary: sh)
  case Nil
  then show ?case by simp
next
  case (Cons d ds)
  show ?case
  proof (cases "valid_axis (length sh) d")
    case True
    then obtain j where j: "py_index sh d = Inr j" using py_index_valid by blast
    have "\<not> list_all (valid_axis (length (sh[j := 1]))) ds" using Cons.prems True by simp
    from Cons.IH [OF this] show ?thesis by (simp add: py_setitem_def j)
  next
    case False
    then show ?thesis by (simp add: py_setitem_def py_index_invalid)
  qed
qed

lemma shape_new_ones [simp]: "shape (new_ones s) = s"
  by (simp add: new_ones_def)

lemma tensor_mul_ones:
  assumes "collapsed m (shape x)"
  shows "tensor_mul x (new_ones m) = Inr (mk_tensor (shape x) (\<lambda>idx. elem x (bidx (shape x) idx)))"
proof -
  have bs: "broadcast_shapes (shape x) m = Some (shape x)"
    using assms by (rule broadcast_shapes_collapsed)
  have "valid_index m (bidx m idx)" if "valid_index (shape x) idx" for idx
    using bs that by (rule broadcast_valid_right)
  then have "mk_tensor (shape x) (\<lambda>idx. elem x (bidx (shape x) idx) * elem (new_ones m) (bidx m idx))
           = mk_tensor (shape x) (\<lambda>idx. elem x (bidx (shape x) idx))"
    by (intro mk_tensor_cong) (simp add: new_ones_def elem_mk_tensor)
  then show ?thesis
    by (simp add: tensor_mul_def tensor_binop_def bs)
qed

lemma tensor_add_bcast_copy:
  "tensor_add y (mk_tensor (shape x) (\<lambda>idx. elem x (bidx (shape x) idx))) = tensor_add y x"
proof (cases "broadcast_shapes (shape y) (shape x)")
  case None
  then show ?thesis by (simp add: tensor_add_def tensor_binop_def)
next
  case (Some s)
  have "valid_index (shape x) (bidx (shape x) idx)" if "valid_index s idx" for idx
    using Some that by (rule broadcast_valid_right)
  then have "mk_tensor s (\<lambda>idx. elem y (bidx (shape y) idx) +
                 elem (mk_tensor (shape x) (\<lambda>idx. elem x (bidx (shape x) idx))) (bidx (shape x) idx))
           = mk_tensor s (\<lambda>idx. elem y (bidx (shape y) idx) + elem x (bidx (shape x) idx))"
    by (intro mk_tensor_cong) (simp add: elem_mk_tensor bidx_idem)
  then show ?thesis
    by (simp add: tensor_add_def tensor_binop_def Some)
qed

lemma mul_add_eq: "mul_add ind dap x msk y = mul_add_eager x msk y"
  by (simp add: mul_add_def mul_add_jit_def Let_def)

lemma bshape_rev_same: "bshape_rev s s = Some s"
  by (induction s) auto

lemma bidx_valid_same: "valid_index s idx \<Longrightarrow> bidx s idx = idx"
proof -
  have "list_all2 (\<lambda>i d. i < d) i a \<Longrightarrow> map2 (\<lambda>d i. if d = (1::nat) then 0 else i) a i = i" for a i
    by (induction i a rule: list_all2_induct) auto
  moreover assume "valid_index s idx"
  ultimately have "map2 (\<lambda>d i. if d = (1::nat) then 0 else i) (rev s) (rev idx) = rev idx"
    by (simp add: valid_index_def list_all2_rev1)
  then show ?thesis by (simp add: bidx_def)
qed

lemma tensor_add_same_shape:
  assumes "shape y = shape x"
  shows "tensor_add y x = Inr (mk_tensor (shape x) (\<lambda>idx. elem y idx + elem x idx))"
proof -
  have bs: "broadcast_shapes (shape y) (shape x) = Some (shape x)"
    by (simp add: assms broadcast_shapes_def bshape_rev_same)
  have "mk_tensor (shape x) (\<lambda>idx. elem y (bidx (shape y) idx) + elem x (bidx (shape x) idx))
      = mk_tensor (shape x) (\<lambda>idx. elem y idx + elem x idx)"
    by (intro mk_tensor_cong) (simp add: assms bidx_valid_same)
  then show ?thesis by (simp add: tensor_add_def tensor_binop_def bs)
qed

lemma Dropout_forward_eval:
  assumes "\<not> self_training self" and "0 \<le> self_p self" and "self_p self \<le> 1"
  shows "Dropout_forward ind dap self u x add_output_to None =
           (if list_all (valid_axis (length (shape x))) (self_share_dim self)
            then tensor_add add_output_to x else Inl IndexError)"
proof (cases "list_all (valid_axis (length (shape x))) (self_share_dim self)")
  case False
  then show ?thesis
    by (simp add: Dropout_forward_def Dropout_mask_def share_shape_invalid)
next
  case True
  then obtain sh where sh: "share_shape (shape x) (self_share_dim self) = Inr sh"
    using share_shape_valid by blast
  have col: "collapsed sh (shape x)"
    using sh collapsed_refl by (rule share_shape_collapsed)
  have "Dropout_mask dap self u x None = Inr (new_ones sh)"
    using assms by (simp add: Dropout_mask_def sh widen_shape_def F_dropout_def)
  then show ?thesis using True
    by (simp add: Dropout_forward_def mul_add_eq mul_add_eager_def tensor_mul_ones [OF col]
        tensor_add_bcast_copy)
qed

subsection \<open>Construction\<close>

text \<open>
  C8, as the spec states it: a probability outside [0, 1] fails at construction and the
  failure reports the offending value. The code fails with a bare AssertionError: at
  \<open>p = 2\<close> the error carries no value.
\<close>

theorem Dropout_init_bare_assertion_counterexample:
  "Dropout_init 2 (STuple []) False = Inl (AssertionError [])"
  by (simp add: Dropout_init_def)

text \<open>
  C8, amended: construction with \<open>p\<close> outside [0, 1] fails at once with an
  AssertionError that carries no value, whatever the other arguments are; for every
  \<open>p\<close> with \<open>0 \<le> p \<le> 1\<close> and \<open>share_dim\<close> an int or a tuple, construction
  succeeds and stores \<open>p\<close>.
\<close>

theorem Dropout_init_range:
  "(\<not> (0 \<le> p \<and> p \<le> 1) \<longrightarrow> Dropout_init p sd ip = Inl (AssertionError [])) \<and>
   (0 \<le> p \<and> p \<le> 1 \<and> sd \<noteq> SOther \<longrightarrow>
      (\<exists>d. Dropout_init p sd ip = Inr d \<and> self_p d = p \<and> self_inplace d = ip \<and> self_training d))"
  by (cases sd) (simp_all add: Dropout_init_def)

theorem Dropout_init_range_witness:
  "Dropout_init (- 1) (SInt (- 3)) True = Inl (AssertionError []) \<and>
   (\<exists>d. Dropout_init (1 / 4) (SInt (- 3)) True = Inr d \<and> self_p d = 1 / 4 \<and>
        self_inplace d = True \<and> self_training d)"
  using Dropout_init_range [of "- 1" "SInt (- 3)" True]
    Dropout_init_range [of "1 / 4" "SInt (- 3)" True]
  by simp

subsection \<open>Inference mode\<close>

text \<open>
  C4, as the spec states it: in inference mode the result is \<open>add_output_to + x\<close>
  for every tensor and whatever the shared axes are. The code indexes the shape list with
  each shared axis first: a row-wise dropout (axis -3) in inference mode raises
  IndexError on a tensor of rank 2.
\<close>

theorem Dropout_forward_inference_counterexample:
  "Dropout_forward no_fusion single_process
     \<lparr>self_p = 1 / 2, self_share_dim = [- 3], self_inplace = False, self_training = False\<rparr>
     (\<lambda>idx. 0) (new_ones [2, 2]) (new_ones [2, 2]) None = Inl IndexError"
  by (simp add: Dropout_forward_eval valid_axis_def)

text \<open>
  C4, amended: in inference mode, for every \<open>p\<close> in [0, 1], every tensor \<open>x\<close>
  for which every shared axis is a valid axis, and every \<open>add_output_to\<close> of the
  shape of \<open>x\<close>, \<open>Dropout.forward(x, add_output_to)\<close> returns exactly
  \<open>add_output_to + x\<close>, whatever \<open>p\<close>, the shared axes, the randomness source
  \<open>u\<close> and the kernel selection are.
\<close>

theorem Dropout_forward_inference:
  assumes "\<not> self_training self" and "0 \<le> self_p self" and "self_p self \<le> 1"
    and "list_all (valid_axis (length (shape x))) (self_share_dim self)"
    and "shape add_output_to = shape x"
  shows "Dropout_forward ind dap self u x add_output_to None = tensor_add add_output_to x \<and>
         tensor_add add_output_to x =
           Inr (mk_tensor (shape x) (\<lambda>idx. elem add_output_to idx + elem x idx))"
  using assms by (simp add: Dropout_forward_eval tensor_add_same_shape)

theorem Dropout_forward_inference_witness:
  "Dropout_forward no_fusion single_process
     \<lparr>self_p = 1 / 2, self_share_dim = [- 3], self_inplace = False, self_training = False\<rparr>
     (\<lambda>idx. 0) (new_ones [1, 2, 3, 1]) (new_ones [1, 2, 3, 1]) None =
     Inr (mk_tensor [1, 2, 3, 1] (\<lambda>idx. elem (new_ones [1, 2, 3, 1]) idx + elem (new_ones [1, 2, 3, 1]) idx))"
  using Dropout_forward_inference [of
      "\<lparr>self_p = 1 / 2, self_share_dim = [- 3], self_inplace = False, self_training = False\<rparr>"
      "new_ones [1, 2, 3, 1]" "new_ones [1, 2, 3, 1]" no_fusion single_process "\<lambda>idx. 0"]
  by (simp add: valid_axis_def)

subsection \<open>Row-wise dropout in training mode\<close>

lemma valid_index4 [simp]:
  "valid_index [B, S, R, C] [b, s, r, c] = (b < B \<and> s < S \<and> r < R \<and> c < C)"
  by (simp add: valid_index_def)

lemma bidx4_row:
  "b < B \<Longrightarrow> r < R \<Longrightarrow> c < C \<Longrightarrow> bidx [B, 1, R, C] [b, s, r, c] = [b, 0, r, c]"
  by (auto simp: bidx_def)

lemma share_shape_row: "share_shape [B, S, R, C] [- 3] = Inr [B, 1, R, C]"
  by (simp add: py_setitem_def py_index_def)

text \<open>
  C6: in training mode, for a tensor \<open>x\<close> of rank 4 with shape \<open>[B, S, R, C]\<close>, the
  mask of \<open>DropoutRowwise\<close> has shape \<open>[B, 1, R, C]\<close>: one mask value for each
  \<open>(b, r, c)\<close>, which is 0 or \<open>1 / (1 - p)\<close>. The product \<open>x * mask\<close> at
  \<open>[b, s, r, c]\<close> is \<open>x[b, s, r, c]\<close> times that one value, for every \<open>s\<close>: along
  axis -3 a slice is kept and scaled as a whole, or zeroed as a whole.
\<close>

theorem DropoutRowwise_mask_shared:
  assumes "DropoutRowwise_init p = Inr d" and "shape x = [B, S, R, C]"
  shows "\<exists>msk xm. Dropout_mask dap (train_mode d) u x None = Inr msk \<and> shape msk = [B, 1, R, C] \<and>
           tensor_mul x msk = Inr xm \<and> shape xm = [B, S, R, C] \<and>
           (\<forall>b r c. (elem msk [b, 0, r, c] = 0 \<or> elem msk [b, 0, r, c] = 1 / (1 - p)) \<and>
              (\<forall>s. b < B \<and> s < S \<and> r < R \<and> c < C \<longrightarrow>
                 elem xm [b, s, r, c] = elem x [b, s, r, c] * elem msk [b, 0, r, c]))"
proof -
  from assms(1) have p: "0 \<le> p" "p \<le> 1"
    and d: "train_mode d = \<lparr>self_p = p, self_share_dim = [- 3], self_inplace = False, self_training = True\<rparr>"
    by (auto simp: DropoutRowwise_init_def Dropout_init_def train_mode_def split: if_splits)
  define msk where "msk = (if p = 1 then mk_tensor [B, Suc 0, R, C] (\<lambda>idx. 0)
      else mk_tensor [B, Suc 0, R, C]
             (\<lambda>idx. if u idx < 1 - p then elem (new_ones [B, Suc 0, R, C]) idx / (1 - p) else 0))"
  have m: "Dropout_mask dap (train_mode d) u x None = Inr msk"
    using p by (simp add: Dropout_mask_def d assms(2) share_shape_row widen_shape_def F_dropout_def msk_def del: share_shape.simps)
  have sm: "shape msk = [B, Suc 0, R, C]"
    by (simp add: msk_def mk_tensor_def)
  have vals: "elem msk [b, 0, r, c] = 0 \<or> elem msk [b, 0, r, c] = 1 / (1 - p)" for b r c
    by (simp add: msk_def mk_tensor_def new_ones_def)
  have bs: "broadcast_shapes [B, S, R, C] [B, Suc 0, R, C] = Some [B, S, R, C]"
    by (simp add: broadcast_shapes_def)
  define xm where "xm = mk_tensor [B, S, R, C]
      (\<lambda>idx. elem x (bidx [B, S, R, C] idx) * elem msk (bidx [B, Suc 0, R, C] idx))"
  have t: "tensor_mul x msk = Inr xm"
    by (simp add: tensor_mul_def tensor_binop_def assms(2) sm bs xm_def)
  have sx: "shape xm = [B, S, R, C]"
    by (simp add: xm_def mk_tensor_def)
  have el: "elem xm [b, s, r, c] = elem x [b, s, r, c] * elem msk [b, 0, r, c]"
    if "b < B \<and> s < S \<and> r < R \<and> c < C" for b s r c
  proof -
    have "bidx [B, S, R, C] [b, s, r, c] = [b, s, r, c]"
      using that by (auto simp: bidx_def)
    moreover have "bidx [B, Suc 0, R, C] [b, s, r, c] = [b, 0, r, c]"
      using that by (auto simp: bidx_def)
    ultimately show ?thesis using that by (simp add: xm_def mk_tensor_def)
  qed
  show ?thesis unfolding One_nat_def using m sm t sx vals el by blast
qed

theorem DropoutRowwise_mask_shared_witness:
  "\<exists>msk xm. Dropout_mask single_process
       (train_mode \<lparr>self_p = 1 / 2, self_share_dim = [- 3], self_inplace = False, self_training = True\<rparr>)
       (\<lambda>idx. 0) (new_ones [1, 2, 2, 1]) None = Inr msk \<and>
     shape msk = [1, 1, 2, 1] \<and> tensor_mul (new_ones [1, 2, 2, 1]) msk = Inr xm \<and>
     shape xm = [1, 2, 2, 1] \<and>
     (\<forall>b r c. (elem msk [b, 0, r, c] = 0 \<or> elem msk [b, 0, r, c] = 1 / (1 - 1 / 2)) \<and>
        (\<forall>s. b < 1 \<and> s < 2 \<and> r < 2 \<and> c < 1 \<longrightarrow>
           elem xm [b, s, r, c] = elem (new_ones [1, 2, 2, 1]) [b, s, r, c] * elem msk [b, 0, r, c]))"
proof (rule DropoutRowwise_mask_shared)
  show "DropoutRowwise_init (1 / 2) =
      Inr \<lparr>self_p = 1 / 2, self_share_dim = [- 3], self_inplace = False, self_training = True\<rparr>"
    by (simp add: DropoutRowwise_init_def Dropout_init_def)
  show "shape (new_ones [1, 2, 2, 1]) = [1, 2, 2, 1]"
    by (simp add: new_ones_def mk_tensor_def)
qed

section \<open>Properties of dropout on the store\<close>

lemma keeps_refl: "keeps h h"
  by (simp add: keeps_def)

lemma keeps_trans:
  assumes "keeps h h1" and "keeps h1 h2"
  shows "keeps h h2"
proof -
  have "take (length h) h2 = take (length h) (take (length h1) h2)"
    using assms(1) by (simp add: keeps_def min_def)
  also have "\<dots> = take (length h) h1"
    using assms(2) by (simp add: keeps_def)
  also have "\<dots> = h"
    using assms(1) by (simp add: keeps_def)
  finally show ?thesis using assms by (simp add: keeps_def)
qed

lemma keeps_append: "keeps h (h @ [t])"
  by (simp add: keeps_def)

lemma keeps_update: "keeps h0 h \<Longrightarrow> length h0 \<le> a \<Longrightarrow> keeps h0 (h[a := t])"
  by (simp add: keeps_def)

lemma keeps_nth:
  assumes "keeps h h'" and "a < length h"
  shows "h' ! a = h ! a"
proof -
  have "h ! a = take (length h) h' ! a" using assms(1) by (simp add: keeps_def)
  also have "\<dots> = h' ! a" using assms(2) by simp
  finally show ?thesis by simp
qed

lemma F_dropout_store_keeps:
  assumes "F_dropout_store h a p training inplace u = (h', r)" and "keeps h0 h" and "length h0 \<le> a"
  shows "keeps h0 h'"
proof (cases "F_dropout (h ! a) p training u")
  case (Inl e)
  with assms show ?thesis by (simp add: F_dropout_store_def)
next
  case (Inr t)
  show ?thesis
  proof (cases training)
    case False
    with Inr assms show ?thesis by (simp add: F_dropout_store_def)
  next
    case True
    show ?thesis
    proof (cases inplace)
      case True
      with Inr \<open>training\<close> assms(1) have "h' = h[a := t]" by (simp add: F_dropout_store_def)
      with assms(2,3) show ?thesis by (simp add: keeps_update)
    next
      case False
      with Inr \<open>training\<close> assms(1) have "h' = h @ [t]" by (simp add: F_dropout_store_def alloc_def)
      with assms(2) keeps_append [of h t] show ?thesis by (blast intro: keeps_trans)
    qed
  qed
qed

lemma mul_add_store_keeps:
  assumes "mul_add_store h x msk y = (h', r)"
  shows "keeps h h'"
proof (cases "tensor_mul (h ! x) (h ! msk)")
  case (Inl e)
  with assms show ?thesis by (simp add: mul_add_store_def keeps_refl)
next
  case (Inr xm)
  show ?thesis
  proof (cases "tensor_add ((h @ [xm]) ! y) ((h @ [xm]) ! length h)")
    case (Inl e)
    with Inr assms have "h' = h @ [xm]" by (simp add: mul_add_store_def alloc_def)
    then show ?thesis by (simp add: keeps_append)
  next
    case (Inr r')
    with \<open>tensor_mul (h ! x) (h ! msk) = Inr xm\<close> assms have "h' = (h @ [xm]) @ [r']"
      by (simp add: mul_add_store_def alloc_def)
    then show ?thesis using keeps_append [of h xm] keeps_append [of "h @ [xm]" r']
      by (blast intro: keeps_trans)
  qed
qed

lemma Dropout_forward_store_keeps:
  assumes "Dropout_forward_store dap self u h x add_output_to dd = (h', r)"
  shows "keeps h h'"
proof (cases "share_shape (shape (h ! x)) (self_share_dim self)")
  case (Inl e)
  with assms show ?thesis by (simp add: Dropout_forward_store_def keeps_refl)
next
  case (Inr sh)
  note sh = this
  show ?thesis
  proof (cases "widen_shape dap sh dd")
    case (Inl e)
    with sh assms show ?thesis by (simp add: Dropout_forward_store_def keeps_refl)
  next
    case (Inr sh')
    define h1 where "h1 = h @ [new_ones sh']"
    obtain h2 r2 where d: "F_dropout_store h1 (length h) (self_p self) (self_training self) (self_inplace self) u = (h2, r2)"
      by (cases "F_dropout_store h1 (length h) (self_p self) (self_training self) (self_inplace self) u")
    have k1: "keeps h h1" by (simp add: h1_def keeps_append)
    from F_dropout_store_keeps [OF d k1] have k2: "keeps h h2" by simp
    show ?thesis
    proof (cases r2)
      case (Inl e)
      with sh Inr d assms have "h' = h2"
        by (simp add: Dropout_forward_store_def alloc_def h1_def)
      with k2 show ?thesis by simp
    next
      case (Inr m2)
      note m2 = this
      show ?thesis
      proof (cases dd)
        case None
        with sh \<open>widen_shape dap sh dd = Inr sh'\<close> d m2 assms
        have "mul_add_store h2 x m2 add_output_to = (h', r)"
          by (simp add: Dropout_forward_store_def alloc_def h1_def)
        from mul_add_store_keeps [OF this] k2 show ?thesis by (blast intro: keeps_trans)
      next
        case (Some k)
        with sh \<open>widen_shape dap sh dd = Inr sh'\<close> d m2 assms
        have "mul_add_store (h2 @ [dap_scatter dap (h2 ! m2) k]) x (length h2) add_output_to = (h', r)"
          by (simp add: Dropout_forward_store_def alloc_def h1_def)
        from mul_add_store_keeps [OF this] keeps_append [of h2 "dap_scatter dap (h2 ! m2) k"] k2
        show ?thesis by (blast intro: keeps_trans)
      qed
    qed
  qed
qed

lemma F_dropout_store_value:
  assumes "F_dropout_store h a p training inplace u = (h', r)" and "a < length h"
  shows "value_of h' r = F_dropout (h ! a) p training u \<and> (\<forall>b. r = Inr b \<longrightarrow> b < length h')"
proof (cases "F_dropout (h ! a) p training u")
  case (Inl e)
  with assms show ?thesis by (auto simp: F_dropout_store_def value_of_def)
next
  case (Inr t)
  show ?thesis
  proof (cases training)
    case False
    with Inr have "t = h ! a" by (simp add: F_dropout_def split: if_splits)
    with False Inr assms show ?thesis by (auto simp: F_dropout_store_def value_of_def)
  next
    case True
    show ?thesis
    proof (cases inplace)
      case True
      with Inr \<open>training\<close> assms show ?thesis by (auto simp: F_dropout_store_def value_of_def)
    next
      case False
      with Inr \<open>training\<close> assms show ?thesis
        by (auto simp: F_dropout_store_def value_of_def alloc_def)
    qed
  qed
qed

lemma mul_add_store_value:
  assumes "mul_add_store h x msk y = (h', r)" and "x < length h" and "msk < length h" and "y < length h"
  shows "value_of h' r = mul_add_eager (h ! x) (h ! msk) (h ! y)"
proof (cases "tensor_mul (h ! x) (h ! msk)")
  case (Inl e)
  with assms show ?thesis by (auto simp: mul_add_store_def mul_add_eager_def value_of_def)
next
  case (Inr xm)
  have y: "(h @ [xm]) ! y = h ! y" using assms(4) by (simp add: nth_append)
  show ?thesis
  proof (cases "tensor_add (h ! y) xm")
    case (Inl e)
    with Inr y assms(1) show ?thesis
      by (auto simp: mul_add_store_def mul_add_eager_def value_of_def alloc_def)
  next
    case (Inr r')
    with \<open>tensor_mul (h ! x) (h ! msk) = Inr xm\<close> y assms(1) show ?thesis
      by (auto simp: mul_add_store_def mul_add_eager_def value_of_def alloc_def nth_append)
  qed
qed

text \<open>The call on the store returns the value of the function on values.\<close>

lemma Dropout_forward_store_value:
  assumes "Dropout_forward_store dap self u h x add_output_to dd = (h', r)"
    and "x < length h" and "add_output_to < length h"
  shows "value_of h' r = Dropout_forward ind dap self u (h ! x) (h ! add_output_to) dd"
proof (cases "share_shape (shape (h ! x)) (self_share_dim self)")
  case (Inl e)
  with assms(1) show ?thesis
    by (auto simp: Dropout_forward_store_def Dropout_forward_def Dropout_mask_def value_of_def)
next
  case (Inr sh)
  note sh = this
  show ?thesis
  proof (cases "widen_shape dap sh dd")
    case (Inl e)
    with sh assms(1) show ?thesis
      by (auto simp: Dropout_forward_store_def Dropout_forward_def Dropout_mask_def value_of_def)
  next
    case (Inr sh')
    note sh' = this
    define h1 where "h1 = h @ [new_ones sh']"
    obtain h2 r2 where d: "F_dropout_store h1 (length h) (self_p self) (self_training self) (self_inplace self) u = (h2, r2)"
      by (cases "F_dropout_store h1 (length h) (self_p self) (self_training self) (self_inplace self) u")
    have k1: "keeps h h1" by (simp add: h1_def keeps_append)
    from F_dropout_store_keeps [OF d k1] have k2: "keeps h h2" by simp
    have "length h < length h1" by (simp add: h1_def)
    from F_dropout_store_value [OF d this]
    have v2: "value_of h2 r2 = F_dropout (new_ones sh') (self_p self) (self_training self) u"
      and l2: "\<And>b. r2 = Inr b \<Longrightarrow> b < length h2"
      by (simp_all add: h1_def)
    have x2: "h2 ! x = h ! x" "h2 ! add_output_to = h ! add_output_to"
      "x < length h2" "add_output_to < length h2"
      using keeps_nth [OF k2] assms(2,3) k2 by (simp_all add: keeps_def)
    show ?thesis
    proof (cases r2)
      case (Inl e)
      with sh sh' d assms(1) have "h' = h2" "r = Inl e"
        by (simp_all add: Dropout_forward_store_def alloc_def h1_def)
      moreover from v2 Inl have "F_dropout (new_ones sh') (self_p self) (self_training self) u = Inl e"
        by (simp add: value_of_def)
      ultimately show ?thesis using sh sh'
        by (simp add: Dropout_forward_def Dropout_mask_def value_of_def)
    next
      case (Inr m2)
      note m2 = this
      with v2 have fd: "F_dropout (new_ones sh') (self_p self) (self_training self) u = Inr (h2 ! m2)"
        by (simp add: value_of_def)
      show ?thesis
      proof (cases dd)
        case None
        with sh sh' d m2 assms(1)
        have "mul_add_store h2 x m2 add_output_to = (h', r)"
          by (simp add: Dropout_forward_store_def alloc_def h1_def)
        from mul_add_store_value [OF this x2(3) l2 [OF m2] x2(4)] x2 fd sh sh' None
        show ?thesis
          by (simp add: Dropout_forward_def Dropout_mask_def mul_add_def mul_add_jit_def Let_def)
      next
        case (Some k)
        define h3 where "h3 = h2 @ [dap_scatter dap (h2 ! m2) k]"
        from Some sh sh' d m2 assms(1)
        have "mul_add_store h3 x (length h2) add_output_to = (h', r)"
          by (simp add: Dropout_forward_store_def alloc_def h1_def h3_def)
        from mul_add_store_value [OF this] x2 fd sh sh' Some
        show ?thesis
          by (simp add: Dropout_forward_def Dropout_mask_def mul_add_def mul_add_jit_def Let_def
              h3_def nth_append)
      qed
    qed
  qed
qed

text \<open>
  C9: whatever the \<open>inplace\<close> flag, the mode, the probability and the randomness
  are, and whether the call returns or raises, \<open>Dropout.forward\<close> leaves the objects
  \<open>x\<close> and \<open>add_output_to\<close> (and every other tensor the caller holds) with the
  values they had: the only cell it overwrites is the mask it has made itself.
\<close>

theorem Dropout_forward_never_mutates_inputs:
  assumes "Dropout_forward_store dap self u h x add_output_to dap_scattered_dim = (h', r)"
    and "x < length h" and "add_output_to < length h"
  shows "h' ! x = h ! x \<and> h' ! add_output_to = h ! add_output_to \<and> take (length h) h' = h"
proof -
  have k: "keeps h h'" using assms(1) by (rule Dropout_forward_store_keeps)
  then have "take (length h) h' = h" by (simp add: keeps_def)
  with keeps_nth [OF k assms(2)] keeps_nth [OF k assms(3)] show ?thesis by simp
qed

theorem Dropout_forward_never_mutates_inputs_witness:
  "\<exists>h' r. Dropout_forward_store single_process
       \<lparr>self_p = 1 / 2, self_share_dim = [- 3], self_inplace = True, self_training = True\<rparr>
       (\<lambda>idx. 0) [new_ones [1, 2, 2, 1], new_ones [1, 2, 2, 1]] 0 1 None = (h', r) \<and>
     h' ! 0 = new_ones [1, 2, 2, 1] \<and> h' ! 1 = new_ones [1, 2, 2, 1]"
proof -
  obtain h' r where e: "Dropout_forward_store single_process
       \<lparr>self_p = 1 / 2, self_share_dim = [- 3], self_inplace = True, self_training = True\<rparr>
       (\<lambda>idx. 0) [new_ones [1, 2, 2, 1], new_ones [1, 2, 2, 1]] 0 1 None = (h', r)"
    by (cases "Dropout_forward_store single_process
       \<lparr>self_p = 1 / 2, self_share_dim = [- 3], self_inplace = True, self_training = True\<rparr>
       (\<lambda>idx. 0) [new_ones [1, 2, 2, 1], new_ones [1, 2, 2, 1]] 0 1 None")
  from Dropout_forward_never_mutates_inputs [OF e] e show ?thesis by simp
qed

section \<open>Properties of the Evoformer block and stack\<close>

text \<open>
  C5: a block built by \<open>EvoformerBlock.__init__\<close>, in either mode, calls row attention
  on \<open>(m, z, mask)\<close>, then its row-wise dropout (shared axis -3) with the attention
  output as \<open>x\<close> and \<open>m\<close> as \<open>add_output_to\<close>, then (only when the parallel
  group is active) the relayout, then column attention on the result, with no dropout
  after it, then the core on \<open>(m, z, msa_mask, pair_mask)\<close>, whose pair it returns.
  With the parallel group active the masks of the two attentions are the scattered
  ones.
\<close>

theorem EvoformerBlock_forward_order:
  assumes "EvoformerBlock_init row_attention column_attention block_core msa_dropout draw = Inr b0"
    and "self = set_training mode b0"
    and "mrow = (if dap_is_enabled dap then dap_scatter dap msa_mask 1 else msa_mask)"
    and "mcol = (if dap_is_enabled dap then dap_scatter dap msa_mask 2 else msa_mask)"
    and "Dropout_forward ind dap (msa_dropout_rowwise self) draw (row_attention m z mrow) m None = Inr m1"
    and "m2 = (if dap_is_enabled dap then dap_row_to_col dap m1 else m1)"
  shows "EvoformerBlock_forward ind dap self m z msa_mask pair_mask =
           Inr (block_core (column_attention m2 mcol) z msa_mask pair_mask,
                [RowAttention m z mrow, DropoutRowwise (row_attention m z mrow) m] @
                (if dap_is_enabled dap then [RowToCol m1] else []) @
                [ColumnAttention m2 mcol, Core (column_attention m2 mcol) z msa_mask pair_mask]) \<and>
         self_share_dim (msa_dropout_rowwise self) = [- 3]"
proof -
  from assms(1) obtain d where d: "DropoutRowwise_init msa_dropout = Inr d"
    and b0: "b0 = \<lparr>msa_att_row = row_attention, msa_att_col = column_attention,
               msa_dropout_rowwise = d, core = block_core, rng_draw = draw\<rparr>"
    by (auto simp: EvoformerBlock_init_def split: sum.splits)
  from d have sd: "self_share_dim d = [- 3]"
    by (auto simp: DropoutRowwise_init_def Dropout_init_def split: if_splits)
  have f: "msa_att_row self = row_attention" "msa_att_col self = column_attention"
    "core self = block_core" "rng_draw self = draw"
    "msa_dropout_rowwise self = d\<lparr>self_training := mode\<rparr>"
    by (simp_all add: assms(2) b0 set_training_def)
  show ?thesis
  proof (cases "dap_is_enabled dap")
    case True
    with assms(3-6) f sd show ?thesis
      by (simp add: EvoformerBlock_forward_def Let_def)
  next
    case False
    with assms(3-6) f sd show ?thesis
      by (simp add: EvoformerBlock_forward_def Let_def)
  qed
qed

theorem EvoformerBlock_forward_order_witness:
  "EvoformerBlock_forward no_fusion single_process example_block
     (new_ones [1, 2, 2, 1]) (new_ones [1, 2, 2, 1]) (new_ones [1, 2, 2]) (new_ones [1, 2, 2]) =
   Inr ((mk_tensor [1, 2, 2, 1] (\<lambda>idx. elem (new_ones [1, 2, 2, 1]) idx + elem (new_ones [1, 2, 2, 1]) idx),
         new_ones [1, 2, 2, 1]),
        [RowAttention (new_ones [1, 2, 2, 1]) (new_ones [1, 2, 2, 1]) (new_ones [1, 2, 2]),
         DropoutRowwise (new_ones [1, 2, 2, 1]) (new_ones [1, 2, 2, 1]),
         ColumnAttention
           (mk_tensor [1, 2, 2, 1] (\<lambda>idx. elem (new_ones [1, 2, 2, 1]) idx + elem (new_ones [1, 2, 2, 1]) idx))
           (new_ones [1, 2, 2]),
         Core
           (mk_tensor [1, 2, 2, 1] (\<lambda>idx. elem (new_ones [1, 2, 2, 1]) idx + elem (new_ones [1, 2, 2, 1]) idx))
           (new_ones [1, 2, 2, 1]) (new_ones [1, 2, 2]) (new_ones [1, 2, 2])])"
proof -
  let ?m = "new_ones [1, 2, 2, 1]"
  let ?k = "new_ones [1, 2, 2]"
  let ?m1 = "mk_tensor [1, 2, 2, 1] (\<lambda>idx. elem ?m idx + elem ?m idx)"
  let ?b0 = "\<lparr>msa_att_row = (\<lambda>m z k. m), msa_att_col = (\<lambda>m k. m),
      msa_dropout_rowwise =
        \<lparr>self_p = 1 / 4, self_share_dim = [- 3], self_inplace = False, self_training = True\<rparr>,
      core = (\<lambda>m z k1 k2. (m, z)), rng_draw = (\<lambda>idx. 0)\<rparr>"
  have i: "EvoformerBlock_init (\<lambda>m z k. m) (\<lambda>m k. m) (\<lambda>m z k1 k2. (m, z)) (1 / 4) (\<lambda>idx. 0) = Inr ?b0"
    by (simp add: EvoformerBlock_init_def DropoutRowwise_init_def Dropout_init_def)
  have s: "example_block = set_training False ?b0"
    by (simp add: example_block_def set_training_def)
  have r: "?k = (if dap_is_enabled single_process then dap_scatter single_process ?k 1 else ?k)"
    by (simp add: single_process_def)
  have c: "?k = (if dap_is_enabled single_process then dap_scatter single_process ?k 2 else ?k)"
    by (simp add: single_process_def)
  have sh: "shape ?m = [1, 2, 2, 1]"
    by (simp add: new_ones_def mk_tensor_def)
  have d: "Dropout_forward no_fusion single_process (msa_dropout_rowwise example_block) (\<lambda>idx. 0)
      ((\<lambda>m z k. m) ?m ?m ?k) ?m None = Inr ?m1"
    by (simp add: example_block_def Dropout_forward_eval valid_axis_def sh tensor_add_same_shape)
  have l: "?m1 = (if dap_is_enabled single_process then dap_row_to_col single_process ?m1 else ?m1)"
    by (simp add: single_process_def)
  from EvoformerBlock_forward_order [OF i s r c d l, of ?m ?k]
  show ?thesis by (simp add: single_process_def)
qed

text \<open>The recomputation strategy computes what the direct strategy computes.\<close>

lemma run_blocks_checkpointed_eq:
  "run_blocks_checkpointed (map (\<lambda>block. (\<lambda>m z. block_call ind dap block m z msa_mask pair_mask)) bs) m z
     = run_blocks ind dap bs m z msa_mask pair_mask"
proof (induction bs arbitrary: m z)
  case Nil
  show ?case by simp
next
  case (Cons block bs)
  show ?case
    by (cases "block_call ind dap block m z msa_mask pair_mask")
      (auto simp: gradient_checkpointing_fn_def Cons.IH)
qed

lemma forward_blocks_checkpointing_eq:
  "forward_blocks_with_gradient_checkpointing ind dap self m z msa_mask pair_mask
     = forward_blocks ind dap self m z msa_mask pair_mask"
  by (simp add: forward_blocks_with_gradient_checkpointing_def forward_blocks_def
      run_blocks_checkpointed_eq Let_def)

text \<open>
  C3, as the spec states it: for identical inputs the two strategies give the same
  outputs. With gradient computation disabled the recomputation strategy fails its
  assertion and the direct strategy returns: here on a stack without blocks.
\<close>

theorem EvoformerStack_checkpointing_counterexample:
  "EvoformerStack_forward no_fusion single_process False \<lparr>blocks = [], linear = (\<lambda>t. t)\<rparr>
     (new_ones [1, 1, 1, 1]) (new_ones [1, 1, 1, 1]) (new_ones [1, 1, 1]) (new_ones [1, 1, 1]) True
   \<noteq> EvoformerStack_forward no_fusion single_process False \<lparr>blocks = [], linear = (\<lambda>t. t)\<rparr>
     (new_ones [1, 1, 1, 1]) (new_ones [1, 1, 1, 1]) (new_ones [1, 1, 1]) (new_ones [1, 1, 1]) False"
  by (simp add: EvoformerStack_forward_def forward_blocks_def single_process_def
      select_first_row_def new_ones_def mk_tensor_def)

text \<open>
  C3, amended: when gradient computation is enabled, \<open>EvoformerStack.forward\<close> with
  \<open>gradient_checkpointing=True\<close> returns exactly what it returns with
  \<open>gradient_checkpointing=False\<close>, for identical inputs and identical draws of the
  blocks' dropout: the same \<open>(m, z, s)\<close>, or the same error.
\<close>

theorem EvoformerStack_checkpointing_equivalent:
  assumes "grad_enabled"
  shows "EvoformerStack_forward ind dap grad_enabled self m z msa_mask pair_mask True
       = EvoformerStack_forward ind dap grad_enabled self m z msa_mask pair_mask False"
  using assms by (simp add: EvoformerStack_forward_def forward_blocks_checkpointing_eq)

theorem EvoformerStack_checkpointing_equivalent_witness:
  "EvoformerStack_forward no_fusion single_process True example_stack
     (new_ones [1, 2, 2, 1]) (new_ones [1, 2, 2, 1]) (new_ones [1, 2, 2]) (new_ones [1, 2, 2]) True
   = EvoformerStack_forward no_fusion single_process True example_stack
     (new_ones [1, 2, 2, 1]) (new_ones [1, 2, 2, 1]) (new_ones [1, 2, 2]) (new_ones [1, 2, 2]) False"
  using EvoformerStack_checkpointing_equivalent [of True] by simp

text \<open>
  C10: with \<open>gradient_checkpointing=True\<close> and gradient computation disabled the
  call fails at once with the AssertionError of the bare assertion, whatever the stack
  and the inputs are; with \<open>gradient_checkpointing=False\<close> the result does not depend
  on whether gradient computation is enabled.
\<close>

theorem EvoformerStack_checkpointing_requires_grad:
  "EvoformerStack_forward ind dap False self m z msa_mask pair_mask True = Inl (AssertionError []) \<and>
   EvoformerStack_forward ind dap False self m z msa_mask pair_mask False
     = EvoformerStack_forward ind dap True self m z msa_mask pair_mask False"
  by (simp add: EvoformerStack_forward_def)

end
